theory Spec2Isabelle
  imports Main
begin

section \<open>Types of the tensor IR and of the lowered IR\<close>

text \<open>
  The element types the sources name: the two 8-bit float formats and \<open>bf16\<close>
  (\<^verbatim>\<open>TypeConverter.cpp\<close>, lines 26--36) and \<open>f16\<close>, \<open>f32\<close>, \<open>f64\<close>
  (\<^verbatim>\<open>Ops.cpp\<close>, lines 145--146).
\<close>

datatype float_kind = Float8E4M3FN | Float8E5M2 | BFloat16 | Float16 | Float32 | Float64

fun floatWidth :: "float_kind \<Rightarrow> nat" where
  "floatWidth Float8E4M3FN = 8"
| "floatWidth Float8E5M2 = 8"
| "floatWidth BFloat16 = 16"
| "floatWidth Float16 = 16"
| "floatWidth Float32 = 32"
| "floatWidth Float64 = 64"

text \<open>
  Modelled from the spec: the hardware generation tag of an MMA layout. The attribute
  declarations (\<^verbatim>\<open>TritonGPUAttrDefs\<close>) are not among the sources; the spec gives
  ``two mutually exclusive hardware generations, Volta-class and Ampere-class''.
\<close>

datatype mma_generation = Volta | Ampere

text \<open>
  The closed set of layout encodings. For \<open>Blocked\<close> the four per-dimension lists are
  size-per-thread, threads-per-warp, warps-per-CTA and the dimension order; \<open>Shared\<close>
  has its vectorisation and swizzling parameters and the dimension order; \<open>Slice\<close> and
  \<open>DotOperand\<close> wrap a parent layout (with the sliced dimension, resp. the operand
  index); \<open>Mma\<close> has its generation and warps-per-CTA. The parameters are declared with
  the attributes, not in the sources at hand; the conversions below only look at which
  encoding it is, at the parent of a \<open>DotOperand\<close> and at the generation of an \<open>Mma\<close>.
\<close>

datatype encoding =
    BlockedEncodingAttr "nat list" "nat list" "nat list" "nat list"
  | SharedEncodingAttr nat nat nat "nat list"
  | SliceEncodingAttr nat encoding
  | MmaEncodingAttr mma_generation "nat list"
  | DotOperandEncodingAttr nat encoding

text \<open>
  Modelled from the spec: the attribute's methods \<^verbatim>\<open>isAmpere\<close> and
  \<^verbatim>\<open>isVolta\<close>, which test the generation tag.
\<close>

fun isAmpere :: "mma_generation \<Rightarrow> bool" where
  "isAmpere g = (g = Ampere)"

fun isVolta :: "mma_generation \<Rightarrow> bool" where
  "isVolta g = (g = Volta)"

text \<open>
  Types. \<open>PointerType\<close> is the tensor IR's pointer (pointee, address space);
  \<open>LLVMPointerType\<close>, \<open>LLVMStructType\<close> (a literal struct, by its body) and
  \<open>VectorType\<close> (width, element) are the types of the lowered IR. A ranked tensor has
  a shape, an element type and an optional layout encoding; \<open>None\<close> is the null
  attribute.
\<close>

datatype ty =
    IntegerType nat
  | IndexType
  | FloatType float_kind
  | PointerType ty nat
  | RankedTensorType "int list" ty "encoding option"
  | LLVMPointerType ty nat
  | LLVMStructType "ty list"
  | VectorType nat ty

fun isIntOrFloat :: "ty \<Rightarrow> bool" where
  "isIntOrFloat (IntegerType w) = True"
| "isIntOrFloat (FloatType k) = True"
| "isIntOrFloat t = False"

fun isIntOrIndexOrFloat :: "ty \<Rightarrow> bool" where
  "isIntOrIndexOrFloat IndexType = True"
| "isIntOrIndexOrFloat t = isIntOrFloat t"

fun isaIntegerType :: "ty \<Rightarrow> bool" where
  "isaIntegerType (IntegerType w) = True"
| "isaIntegerType t = False"

fun isaPointerType :: "ty \<Rightarrow> bool" where
  "isaPointerType (PointerType p a) = True"
| "isaPointerType t = False"

fun isaLLVMPointerType :: "ty \<Rightarrow> bool" where
  "isaLLVMPointerType (LLVMPointerType p a) = True"
| "isaLLVMPointerType t = False"

text \<open>
  \<^verbatim>\<open>getIntOrFloatBitWidth\<close> asserts that the type is an integer or a float; the
  failed assertion is \<open>None\<close>.
\<close>

fun getIntOrFloatBitWidth :: "ty \<Rightarrow> nat option" where
  "getIntOrFloatBitWidth (IntegerType w) = Some w"
| "getIntOrFloatBitWidth (FloatType k) = Some (floatWidth k)"
| "getIntOrFloatBitWidth t = None"

text \<open>
  Modelled from the spec: the macro \<^verbatim>\<open>vec_ty(type, num)\<close> of
  \<^verbatim>\<open>Utility.h\<close>, which is not among the sources. It is the ``fixed-width
  vector'' type of \<open>num\<close> elements of \<open>type\<close>; a vector of one element is not the
  element type.
\<close>

definition vec_ty :: "ty \<Rightarrow> nat \<Rightarrow> ty" where
  "vec_ty t num = VectorType num t"

section \<open>The type converter to the lowered IR\<close>

text \<open>
  What the converter takes from outside this file: the index bit width of the lowering
  options handed to the constructor, and \<^verbatim>\<open>getElemsPerThread\<close>, which
  \<^verbatim>\<open>Dialect.h\<close> declares and whose definition is not among the sources. It is
  a parameter; no theorem below depends on what it computes.
\<close>

record converter =
  indexBitwidth :: nat
  getElemsPerThread :: "ty \<Rightarrow> nat"

text \<open>
  \<^verbatim>\<open>convertType\<close> tries the conversions registered last first: \<open>bf16\<close> to
  \<open>i16\<close>, the two \<open>f8\<close> formats to \<open>i8\<close>, ranked tensors, tensor-IR pointers,
  then the rules of the base class (integers and the other floats are kept, \<open>index\<close>
  becomes the integer of the index bit width, types of the lowered IR are kept).
  \<open>None\<close> stands for ``no type'': a null type, or an assertion that failed on the way
  (a cast of the null encoding, a bit width of a type that has none).

  In \<^verbatim>\<open>getElementTypeForStruct\<close> the table \<^verbatim>\<open>elemTyMap\<close> is the
  association list of the source, and a missing key gives the null type.
\<close>

fun convertType :: "converter \<Rightarrow> ty \<Rightarrow> ty option"
and convertTritonPointerType :: "converter \<Rightarrow> ty \<Rightarrow> nat \<Rightarrow> ty option"
and getElementTypeForStruct :: "converter \<Rightarrow> int list \<Rightarrow> ty \<Rightarrow> encoding option \<Rightarrow> ty option"
and convertTritonTensorType :: "converter \<Rightarrow> int list \<Rightarrow> ty \<Rightarrow> encoding option \<Rightarrow> ty option"
where
  "convertType cv (FloatType BFloat16) = Some (IntegerType 16)"
| "convertType cv (FloatType Float8E5M2) = Some (IntegerType 8)"
| "convertType cv (FloatType Float8E4M3FN) = Some (IntegerType 8)"
| "convertType cv (RankedTensorType shape elementType layout) =
     convertTritonTensorType cv shape elementType layout"
| "convertType cv (PointerType pointee addressSpace) =
     convertTritonPointerType cv pointee addressSpace"
| "convertType cv (IntegerType w) = Some (IntegerType w)"
| "convertType cv (FloatType k) = Some (FloatType k)"
| "convertType cv IndexType = Some (IntegerType (indexBitwidth cv))"
| "convertType cv (LLVMPointerType p a) = Some (LLVMPointerType p a)"
| "convertType cv (LLVMStructType body) = Some (LLVMStructType body)"
| "convertType cv (VectorType n e) = Some (VectorType n e)"
| "convertTritonPointerType cv pointee addressSpace =
     (case convertType cv pointee of
        None \<Rightarrow> None
      | Some p \<Rightarrow> Some (LLVMPointerType p addressSpace))"
| "getElementTypeForStruct cv shape elementType layout =
     (case convertType cv elementType of
        None \<Rightarrow> None
      | Some elemTy \<Rightarrow>
         (case layout of
            None \<Rightarrow> None
          | Some (DotOperandEncodingAttr opIdx parent) \<Rightarrow>
              (case parent of
                 MmaEncodingAttr mmaParent wpc \<Rightarrow>
                   if isAmpere mmaParent then
                     (case getIntOrFloatBitWidth elemTy of
                        None \<Rightarrow> None
                      | Some bitwidth \<Rightarrow>
                          if isaIntegerType elemTy \<and> bitwidth < 32 then Some (IntegerType 32)
                          else map_of [(32, vec_ty elemTy 1),
                                       (16, vec_ty elemTy 2),
                                       (8, vec_ty elemTy 4)] bitwidth)
                   else if isVolta mmaParent then Some (vec_ty elemTy 2)
                   else None
               | notMma \<Rightarrow> Some elemTy)
          | Some notDotOp \<Rightarrow> Some elemTy))"
| "convertTritonTensorType cv shape elementType layout =
     (case getElementTypeForStruct cv shape elementType layout of
        None \<Rightarrow> None
      | Some eltType \<Rightarrow>
         (case layout of
            Some (SharedEncodingAttr vec perPhase maxPhase ord) \<Rightarrow>
              Some (LLVMStructType
                (LLVMPointerType eltType 3 # replicate (length shape * 2) (IntegerType 32)))
          | other \<Rightarrow>
              Some (LLVMStructType
                (replicate (getElemsPerThread cv (RankedTensorType shape elementType layout))
                   eltType))))"

text \<open>A converter for the worked examples: 64-bit indices, four elements per thread.\<close>

definition referenceConverter :: converter where
  "referenceConverter = \<lparr>indexBitwidth = 64, getElemsPerThread = (\<lambda>t. 4)\<rparr>"

section \<open>Packing and unpacking of lowered values\<close>

text \<open>
  A value of the lowered IR is modelled by what it holds: \<open>NullValue\<close> is the null
  handle; \<open>OpaqueVal t n\<close> is the \<open>n\<close>-th value of a scalar, vector or pointer type
  \<open>t\<close>, and \<open>UndefVal t\<close> is the undefined value of such a type; \<open>StructVal body fs\<close>
  is the aggregate of the literal struct type with that body whose fields hold \<open>fs\<close>.
  Two values are equal when they hold the same; the operation that produced a value is
  not part of it (the operations created are recorded in the state below).
  Taking the type of the null handle is a crash (\<open>None\<close>).
\<close>

datatype val =
    NullValue
  | OpaqueVal ty nat
  | UndefVal ty
  | StructVal "ty list" "val list"

fun getType :: "val \<Rightarrow> ty option" where
  "getType NullValue = None"
| "getType (OpaqueVal t n) = Some t"
| "getType (UndefVal t) = Some t"
| "getType (StructVal body fs) = Some (LLVMStructType body)"

text \<open>
  The three diagnostics of \<^verbatim>\<open>packLLElements\<close>, with the data their messages
  print: expected and actual count; expected and actual type.
\<close>

datatype diagnostic =
    PackSizeMismatch nat nat
  | PackNullValue
  | PackInvalidElementType ty ty

datatype llvm_op = UndefOp ty | InsertValueOp nat | ExtractValueOp nat

text \<open>
  The state the two functions act on: the diagnostics emitted so far, each with its
  location, and the operations the rewriter has created so far.
\<close>

record lowering_state =
  diags :: "(nat \<times> diagnostic) list"
  ops :: "llvm_op list"

definition emitError :: "nat \<Rightarrow> diagnostic \<Rightarrow> lowering_state \<Rightarrow> lowering_state" where
  "emitError loc d st = st\<lparr>diags := diags st @ [(loc, d)]\<rparr>"

definition createUndefOp :: "ty list \<Rightarrow> lowering_state \<Rightarrow> val \<times> lowering_state" where
  "createUndefOp body st =
     (StructVal body (map UndefVal body), st\<lparr>ops := ops st @ [UndefOp (LLVMStructType body)]\<rparr>)"

text \<open>
  Modelled from the spec: the macros \<^verbatim>\<open>insert_val\<close> and \<^verbatim>\<open>extract_val\<close> of
  \<^verbatim>\<open>Utility.h\<close>, which is not among the sources. Each creates one operation;
  \<open>insert_val\<close> ``inserts the input value into the aggregate's field \<open>i\<close>'' and
  \<open>extract_val\<close> ``extracts the field'' \<open>i\<close>. A field that the aggregate does not have
  reads as an undefined value of the requested type.
\<close>

definition insert_val :: "ty \<Rightarrow> val \<Rightarrow> val \<Rightarrow> nat \<Rightarrow> lowering_state \<Rightarrow> val \<times> lowering_state" where
  "insert_val structType llvmStruct v i st =
     ((case llvmStruct of
         StructVal body fs \<Rightarrow> StructVal body (fs[i := v])
       | other \<Rightarrow> other),
      st\<lparr>ops := ops st @ [InsertValueOp i]\<rparr>)"

definition extract_val :: "ty \<Rightarrow> val \<Rightarrow> nat \<Rightarrow> lowering_state \<Rightarrow> val \<times> lowering_state" where
  "extract_val t llvmStruct i st =
     ((case llvmStruct of
         StructVal body fs \<Rightarrow> if i < length fs then fs ! i else UndefVal t
       | other \<Rightarrow> UndefVal t),
      st\<lparr>ops := ops st @ [ExtractValueOp i]\<rparr>)"

text \<open>
  The loop of \<^verbatim>\<open>packLLElements\<close> over the enumerated values. The result is
  \<open>None\<close> where the process does not get past the iteration: the type of a null value
  is taken, or \<^verbatim>\<open>elementTypes\<close> is indexed past its end. The state returned with
  \<open>None\<close> is what had been emitted and created until then.
\<close>

fun packLoop :: "nat \<Rightarrow> ty list \<Rightarrow> (nat \<times> val) list \<Rightarrow> val \<Rightarrow> lowering_state
    \<Rightarrow> val option \<times> lowering_state" where
  "packLoop loc elementTypes [] llvmStruct st = (Some llvmStruct, st)"
| "packLoop loc elementTypes ((index, v) # rest) llvmStruct st =
     (let st1 = (if v = NullValue then emitError loc PackNullValue st else st) in
      case getType v of
        None \<Rightarrow> (None, st1)
      | Some vt \<Rightarrow>
          if length elementTypes \<le> index then (None, st1)
          else
            let st2 = (if vt \<noteq> elementTypes ! index
                       then emitError loc (PackInvalidElementType (elementTypes ! index) vt) st1
                       else st1)
            in case insert_val (LLVMStructType elementTypes) llvmStruct v index st2 of
                 (llvmStruct', st3) \<Rightarrow> packLoop loc elementTypes rest llvmStruct' st3)"

text \<open>
  The type-mismatch diagnostics of the loop, for the statements below: one for each
  enumerated value whose type is not the type of its field, in the order of the values.
\<close>

definition typeMismatchDiagnostics ::
    "nat \<Rightarrow> ty list \<Rightarrow> (nat \<times> val) list \<Rightarrow> (nat \<times> diagnostic) list" where
  "typeMismatchDiagnostics loc elementTypes ivs =
     List.map_filter
       (\<lambda>(index, v).
          case getType v of
            None \<Rightarrow> None
          | Some vt \<Rightarrow>
              if vt \<noteq> elementTypes ! index
              then Some (loc, PackInvalidElementType (elementTypes ! index) vt)
              else None)
       ivs"

text \<open>
  \<^verbatim>\<open>packLLElements\<close>. Where the converted type is not a struct, the assertion
  wants exactly one value. A size mismatch emits its diagnostic and the function goes on.
\<close>

definition packLLElements :: "converter \<Rightarrow> nat \<Rightarrow> val list \<Rightarrow> ty \<Rightarrow> lowering_state
    \<Rightarrow> val option \<times> lowering_state" where
  "packLLElements cv loc resultVals t st =
     (case convertType cv t of
        None \<Rightarrow> (None, st)
      | Some (LLVMStructType elementTypes) \<Rightarrow>
          (let st1 = (if length elementTypes \<noteq> length resultVals
                      then emitError loc
                             (PackSizeMismatch (length elementTypes) (length resultVals)) st
                      else st)
           in case createUndefOp elementTypes st1 of
                (llvmStruct, st2) \<Rightarrow>
                  packLoop loc elementTypes (enumerate 0 resultVals) llvmStruct st2)
      | Some other \<Rightarrow>
          (case resultVals of
             [v] \<Rightarrow> (Some v, st)
           | _ \<Rightarrow> (None, st)))"

fun unpackLoop :: "ty list \<Rightarrow> val \<Rightarrow> nat list \<Rightarrow> lowering_state \<Rightarrow> val list \<times> lowering_state" where
  "unpackLoop types llvmStruct [] st = ([], st)"
| "unpackLoop types llvmStruct (i # rest) st =
     (case extract_val (types ! i) llvmStruct i st of
        (r, st1) \<Rightarrow>
          (case unpackLoop types llvmStruct rest st1 of
             (rs, st2) \<Rightarrow> (r # rs, st2)))"

text \<open>
  \<^verbatim>\<open>unpackLLElements\<close>: the assertion on a null value and the cast of a type that
  is not a struct are \<open>None\<close>; the loop runs over the indices \<open>0, \<dots>, size - 1\<close> of the
  struct's body.
\<close>

definition unpackLLElements :: "nat \<Rightarrow> val \<Rightarrow> lowering_state \<Rightarrow> val list option \<times> lowering_state" where
  "unpackLLElements loc llvmStruct st =
     (case getType llvmStruct of
        None \<Rightarrow> (None, st)
      | Some t \<Rightarrow>
          if isIntOrIndexOrFloat t \<or> isaPointerType t \<or> isaLLVMPointerType t
          then (Some [llvmStruct], st)
          else (case t of
                  LLVMStructType types \<Rightarrow>
                    (case unpackLoop types llvmStruct [0..<length types] st of
                       (results, st1) \<Rightarrow> (Some results, st1))
                | other \<Rightarrow> (None, st)))"

section \<open>Result-type inference of the tensor IR operations\<close>

text \<open>
  The layout inference interface of the encoding's dialect is a parameter: each of its
  methods either fails (\<open>None\<close>) or gives the inferred encoding.
\<close>

record infer_layout_interface =
  inferTransOpEncoding :: "encoding \<Rightarrow> encoding option"
  inferReduceOpEncoding :: "encoding \<Rightarrow> int \<Rightarrow> encoding option"
  inferExpandDimsOpEncoding :: "encoding \<Rightarrow> int \<Rightarrow> encoding option"

text \<open>
  The reduction kinds that \<^verbatim>\<open>ReduceOp::withIndex\<close> names; the enumeration's other
  members (its declaration is generated, and not among the sources) are \<open>OtherRedOp\<close>.
\<close>

datatype RedOp = ARGMIN | ARGMAX | ARGUMIN | ARGUMAX | ARGFMIN | ARGFMAX | OtherRedOp nat

definition withIndex :: "RedOp \<Rightarrow> bool" where
  "withIndex redOp =
     (redOp = ARGMIN \<or> redOp = ARGMAX \<or> redOp = ARGUMIN \<or> redOp = ARGUMAX \<or>
      redOp = ARGFMIN \<or> redOp = ARGFMAX)"

text \<open>
  How a call of \<^verbatim>\<open>inferReturnTypes\<close> ends: it returns success with the inferred
  types, it returns failure having emitted the given diagnostics (location, message), or
  it does not return: \<open>FatalError\<close> is \<^verbatim>\<open>llvm::report_fatal_error\<close>, which
  terminates the process with the message; \<open>Unspecified\<close> is a failed cast of an operand
  type or an iterator out of range.
\<close>

datatype infer_result =
    InferSuccess "ty list"
  | InferFailure "(nat \<times> string) list"
  | FatalError string
  | Unspecified

text \<open>\<^verbatim>\<open>emitOptionalError\<close> emits at the location when there is one, and is a failure.\<close>

definition emitOptionalError :: "nat option \<Rightarrow> string \<Rightarrow> infer_result" where
  "emitOptionalError loc msg =
     InferFailure (case loc of None \<Rightarrow> [] | Some l \<Rightarrow> [(l, msg)])"

definition TransOp_inferReturnTypes ::
    "infer_layout_interface \<Rightarrow> nat option \<Rightarrow> ty list \<Rightarrow> infer_result" where
  "TransOp_inferReturnTypes iface location operands =
     (case operands of
        RankedTensorType shape retEltTy argEncoding # rest \<Rightarrow>
          (let retShape = rev shape in
           case argEncoding of
             None \<Rightarrow> InferSuccess [RankedTensorType retShape retEltTy None]
           | Some enc \<Rightarrow>
               (case inferTransOpEncoding iface enc of
                  None \<Rightarrow> FatalError ''failed to infer layout for ReduceOp''
                | Some retEncoding \<Rightarrow>
                    InferSuccess [RankedTensorType retShape retEltTy (Some retEncoding)]))
      | _ \<Rightarrow> Unspecified)"

definition ReduceOp_inferReturnTypes ::
    "infer_layout_interface \<Rightarrow> nat option \<Rightarrow> ty list \<Rightarrow> RedOp \<Rightarrow> int \<Rightarrow> infer_result" where
  "ReduceOp_inferReturnTypes iface location operands redOp axis =
     (case operands of
        RankedTensorType shape argEltTy argEncoding # rest \<Rightarrow>
          (let retEltTy = (if withIndex redOp then IntegerType 32 else argEltTy) in
           if axis < 0 \<or> int (length shape) \<le> axis then Unspecified
           else
             (let retShape = take (nat axis) shape @ drop (Suc (nat axis)) shape in
              if retShape = [] then InferSuccess [retEltTy]
              else
                (case argEncoding of
                   None \<Rightarrow> InferSuccess [RankedTensorType retShape retEltTy None]
                 | Some enc \<Rightarrow>
                     (case inferReduceOpEncoding iface enc axis of
                        None \<Rightarrow> FatalError ''failed to infer layout for ReduceOp''
                      | Some retEncoding \<Rightarrow>
                          InferSuccess [RankedTensorType retShape retEltTy (Some retEncoding)]))))
      | _ \<Rightarrow> Unspecified)"

definition ExpandDimsOp_inferReturnTypes ::
    "infer_layout_interface \<Rightarrow> nat option \<Rightarrow> ty list \<Rightarrow> int \<Rightarrow> infer_result" where
  "ExpandDimsOp_inferReturnTypes iface loc operands axis =
     (case operands of
        RankedTensorType shape argEltTy argEncoding # rest \<Rightarrow>
          if axis < 0 \<or> int (length shape) < axis then Unspecified
          else
            (let retShape = take (nat axis) shape @ 1 # drop (nat axis) shape in
             case argEncoding of
               None \<Rightarrow> InferSuccess [RankedTensorType retShape argEltTy None]
             | Some enc \<Rightarrow>
                 (case inferExpandDimsOpEncoding iface enc axis of
                    None \<Rightarrow> emitOptionalError loc ''failed to infer layout for ExpandDimsOp''
                  | Some retEncoding \<Rightarrow>
                      InferSuccess [RankedTensorType retShape argEltTy (Some retEncoding)]))
      | _ \<Rightarrow> Unspecified)"

text \<open>A layout interface that infers nothing, for the worked examples.\<close>

definition noInference :: infer_layout_interface where
  "noInference = \<lparr>inferTransOpEncoding = (\<lambda>enc. None),
                   inferReduceOpEncoding = (\<lambda>enc axis. None),
                   inferExpandDimsOpEncoding = (\<lambda>enc axis. None)\<rparr>"

section \<open>The converter and the conversion target of the layout-assigning pass\<close>




fun isaDotOperandEncodingAttr :: "encoding \<Rightarrow> bool" where
  "isaDotOperandEncodingAttr (DotOperandEncodingAttr opIdx parent) = True"
| "isaDotOperandEncodingAttr e = False"

text \<open>
  The legality callback the conversion target registers for the dot operation, on the
  types of its operands \<open>a\<close> and \<open>b\<close>. The casts to a ranked tensor type fail on any
  other type (\<open>None\<close>).
\<close>

definition DotOp_isLegal :: "ty \<Rightarrow> ty \<Rightarrow> bool option" where
  "DotOp_isLegal aTy bTy =
     (case aTy of
        RankedTensorType aShape aElt aEncoding \<Rightarrow>
          (case bTy of
             RankedTensorType bShape bElt bEncoding \<Rightarrow>
               Some ((case aEncoding of None \<Rightarrow> False | Some a \<Rightarrow> isaDotOperandEncodingAttr a)
                     \<and> (case bEncoding of None \<Rightarrow> False | Some b \<Rightarrow> isaDotOperandEncodingAttr b))
           | _ \<Rightarrow> None)
      | _ \<Rightarrow> None)"

section \<open>Properties of the type converter\<close>

lemma shared_tensor_conversion:
  "convertTritonTensorType cv shape elementType
     (Some (SharedEncodingAttr vec perPhase maxPhase ord)) =
     (case convertType cv elementType of
        None \<Rightarrow> None
      | Some elemTy \<Rightarrow>
          Some (LLVMStructType
            (LLVMPointerType elemTy 3 # replicate (length shape * 2) (IntegerType 32))))"
  by (simp split: option.splits)

text \<open>
  C7. A tensor type of rank \<open>r\<close> with a Shared layout, whose element type converts,
  converts to the struct of one pointer in an address space to the resolved element type
  followed by exactly \<open>2 * r\<close> 32-bit integers. The resolved element type is the
  converted element type, and the number of fields does not depend on
  \<^verbatim>\<open>getElemsPerThread\<close>.
\<close>

theorem shared_layout_struct:
  assumes "convertType cv elementType = Some elemTy"
  shows "getElementTypeForStruct cv shape elementType
           (Some (SharedEncodingAttr vec perPhase maxPhase ord)) = Some elemTy
       \<and> convertType cv (RankedTensorType shape elementType
           (Some (SharedEncodingAttr vec perPhase maxPhase ord))) =
         Some (LLVMStructType
           (LLVMPointerType elemTy 3 # replicate (2 * length shape) (IntegerType 32)))"
  using assms by (simp add: mult.commute)

theorem shared_layout_struct_witness:
  "convertType referenceConverter (FloatType BFloat16) = Some (IntegerType 16)
   \<and> convertType referenceConverter (RankedTensorType [64, 32] (FloatType BFloat16)
           (Some (SharedEncodingAttr 8 2 4 [1, 0]))) =
         Some (LLVMStructType
           [LLVMPointerType (IntegerType 16) 3,
            IntegerType 32, IntegerType 32, IntegerType 32, IntegerType 32])"
proof -
  have h: "convertType referenceConverter (FloatType BFloat16) = Some (IntegerType 16)"
    by simp
  have r: "replicate (2 * length [64, 32 :: int]) (IntegerType 32)
      = [IntegerType 32, IntegerType 32, IntegerType 32, IntegerType 32]"
    by (simp add: numeral_eq_Suc)
  from shared_layout_struct [OF h, of "[64, 32]" 8 2 4 "[1, 0]"] h r show ?thesis
    by simp
qed

text \<open>
  C10. Whenever a tensor type with a Shared layout converts, the first field of the
  struct is a pointer in address space 3, whatever the element type, the shape and the
  converter's parameters are.
\<close>

theorem shared_base_pointer_address_space:
  assumes "convertType cv (RankedTensorType shape elementType
             (Some (SharedEncodingAttr vec perPhase maxPhase ord))) = Some t"
  shows "\<exists>pointee rest. t = LLVMStructType (LLVMPointerType pointee 3 # rest)"
  using assms by (auto simp: shared_tensor_conversion split: option.splits)

theorem shared_base_pointer_address_space_witness:
  "convertType referenceConverter (RankedTensorType [128] (FloatType Float32)
     (Some (SharedEncodingAttr 1 1 1 [0]))) =
     Some (LLVMStructType [LLVMPointerType (FloatType Float32) 3, IntegerType 32, IntegerType 32])
   \<and> (\<exists>pointee rest.
         LLVMStructType [LLVMPointerType (FloatType Float32) 3, IntegerType 32, IntegerType 32] =
         LLVMStructType (LLVMPointerType pointee 3 # rest))"
proof -
  have h: "convertType referenceConverter (RankedTensorType [128] (FloatType Float32)
     (Some (SharedEncodingAttr 1 1 1 [0]))) =
     Some (LLVMStructType [LLVMPointerType (FloatType Float32) 3, IntegerType 32, IntegerType 32])"
    by (simp add: numeral_eq_Suc)
  from shared_base_pointer_address_space [OF h] h show ?thesis
    by simp
qed

text \<open>
  C8. For a DotOperand layout over a Volta-class MMA parent, element-type resolution gives
  the 2-wide vector of the converted element type, for every element type that converts.
\<close>

theorem volta_dot_operand_element:
  assumes "convertType cv elementType = Some elemTy"
  shows "getElementTypeForStruct cv shape elementType
           (Some (DotOperandEncodingAttr opIdx (MmaEncodingAttr Volta wpc))) =
         Some (VectorType 2 elemTy)"
  using assms by (simp add: vec_ty_def)

theorem volta_dot_operand_element_witness:
  "convertType referenceConverter (FloatType Float8E5M2) = Some (IntegerType 8)
   \<and> getElementTypeForStruct referenceConverter [32, 16] (FloatType Float8E5M2)
        (Some (DotOperandEncodingAttr 1 (MmaEncodingAttr Volta [4, 1]))) =
      Some (VectorType 2 (IntegerType 8))"
proof -
  have h: "convertType referenceConverter (FloatType Float8E5M2) = Some (IntegerType 8)"
    by simp
  from volta_dot_operand_element [OF h] h show ?thesis
    by simp
qed

text \<open>
  C2, as the code has it. For a DotOperand layout over an Ampere-class MMA parent an 8-bit
  or 16-bit integer element type resolves to the 32-bit integer, and so does \<open>bf16\<close>
  (stored as \<open>i16\<close>); \<open>f16\<close> resolves to the 2-wide vector, and a 32-bit element type
  resolves to the 1-wide vector of that type.
\<close>

theorem ampere_dot_operand_table:
  "getElementTypeForStruct cv shape (IntegerType 8)
      (Some (DotOperandEncodingAttr opIdx (MmaEncodingAttr Ampere wpc))) = Some (IntegerType 32)
 \<and> getElementTypeForStruct cv shape (IntegerType 16)
      (Some (DotOperandEncodingAttr opIdx (MmaEncodingAttr Ampere wpc))) = Some (IntegerType 32)
 \<and> getElementTypeForStruct cv shape (FloatType BFloat16)
      (Some (DotOperandEncodingAttr opIdx (MmaEncodingAttr Ampere wpc))) = Some (IntegerType 32)
 \<and> getElementTypeForStruct cv shape (FloatType Float16)
      (Some (DotOperandEncodingAttr opIdx (MmaEncodingAttr Ampere wpc))) =
        Some (VectorType 2 (FloatType Float16))
 \<and> getElementTypeForStruct cv shape (IntegerType 32)
      (Some (DotOperandEncodingAttr opIdx (MmaEncodingAttr Ampere wpc))) =
        Some (VectorType 1 (IntegerType 32))
 \<and> getElementTypeForStruct cv shape (FloatType Float32)
      (Some (DotOperandEncodingAttr opIdx (MmaEncodingAttr Ampere wpc))) =
        Some (VectorType 1 (FloatType Float32))"
  by (simp add: vec_ty_def)

text \<open>
  Against C2 as stated: the 8-bit integer element type does not resolve to a 4-wide
  vector, the 16-bit integer does not resolve to a 2-wide vector, and the 32-bit integer
  does not stay the scalar type.
\<close>

theorem ampere_int8_is_widened:
  "getElementTypeForStruct referenceConverter [16, 16] (IntegerType 8)
      (Some (DotOperandEncodingAttr 0 (MmaEncodingAttr Ampere [2, 2]))) = Some (IntegerType 32)
 \<and> getElementTypeForStruct referenceConverter [16, 16] (IntegerType 8)
      (Some (DotOperandEncodingAttr 0 (MmaEncodingAttr Ampere [2, 2]))) \<noteq>
        Some (VectorType 4 (IntegerType 8))
 \<and> getElementTypeForStruct referenceConverter [16, 16] (IntegerType 16)
      (Some (DotOperandEncodingAttr 0 (MmaEncodingAttr Ampere [2, 2]))) \<noteq>
        Some (VectorType 2 (IntegerType 16))
 \<and> getElementTypeForStruct referenceConverter [16, 16] (IntegerType 32)
      (Some (DotOperandEncodingAttr 0 (MmaEncodingAttr Ampere [2, 2]))) \<noteq>
        Some (IntegerType 32)"
  by (simp add: vec_ty_def)

text \<open>
  C3, as the code has it. For a DotOperand layout over an Ampere-class MMA parent the
  resolution works on the converted element type: where that is an integer of fewer than
  32 bits the result is the 32-bit integer; otherwise, where its bit width is 32, 16 or 8,
  the result is the vector of the converted type of width 1, 2 or 4; for any other bit
  width there is no type.
\<close>

theorem ampere_dot_operand_resolution:
  assumes "convertType cv elementType = Some elemTy"
      and "getIntOrFloatBitWidth elemTy = Some bitwidth"
  shows "getElementTypeForStruct cv shape elementType
           (Some (DotOperandEncodingAttr opIdx (MmaEncodingAttr Ampere wpc))) =
         (if isaIntegerType elemTy \<and> bitwidth < 32 then Some (IntegerType 32)
          else if bitwidth = 32 \<or> bitwidth = 16 \<or> bitwidth = 8
               then Some (VectorType (32 div bitwidth) elemTy)
               else None)"
  using assms by (auto simp: vec_ty_def)

theorem ampere_dot_operand_resolution_witness:
  "convertType referenceConverter (FloatType Float16) = Some (FloatType Float16)
   \<and> getIntOrFloatBitWidth (FloatType Float16) = Some 16
   \<and> getElementTypeForStruct referenceConverter [16, 16] (FloatType Float16)
        (Some (DotOperandEncodingAttr 0 (MmaEncodingAttr Ampere [2, 2]))) =
      Some (VectorType 2 (FloatType Float16))
   \<and> convertType referenceConverter (FloatType Float8E4M3FN) = Some (IntegerType 8)
   \<and> getIntOrFloatBitWidth (IntegerType 8) = Some 8
   \<and> getElementTypeForStruct referenceConverter [16, 16] (FloatType Float8E4M3FN)
        (Some (DotOperandEncodingAttr 0 (MmaEncodingAttr Ampere [2, 2]))) =
      Some (IntegerType 32)"
proof -
  have h1: "convertType referenceConverter (FloatType Float16) = Some (FloatType Float16)"
    by simp
  have b1: "getIntOrFloatBitWidth (FloatType Float16) = Some 16" by simp
  have h2: "convertType referenceConverter (FloatType Float8E4M3FN) = Some (IntegerType 8)"
    by simp
  have b2: "getIntOrFloatBitWidth (IntegerType 8) = Some 8" by simp
  from ampere_dot_operand_resolution [OF h1 b1, of "[16, 16]" 0 "[2, 2]"]
       ampere_dot_operand_resolution [OF h2 b2, of "[16, 16]" 0 "[2, 2]"] h1 b1 h2 b2
  show ?thesis by simp
qed

text \<open>
  Against C3 as stated: \<open>bf16\<close> is a non-integer element type of 16 bits, and it resolves
  to the 32-bit integer, not to a 2-wide vector.
\<close>

theorem ampere_bf16_is_widened:
  "getElementTypeForStruct referenceConverter [16, 16] (FloatType BFloat16)
      (Some (DotOperandEncodingAttr 0 (MmaEncodingAttr Ampere [2, 2]))) = Some (IntegerType 32)
 \<and> getElementTypeForStruct referenceConverter [16, 16] (FloatType BFloat16)
      (Some (DotOperandEncodingAttr 0 (MmaEncodingAttr Ampere [2, 2]))) \<noteq>
        Some (VectorType 2 (FloatType BFloat16))
 \<and> getElementTypeForStruct referenceConverter [16, 16] (FloatType BFloat16)
      (Some (DotOperandEncodingAttr 0 (MmaEncodingAttr Ampere [2, 2]))) \<noteq>
        Some (VectorType 2 (IntegerType 16))"
  by (simp add: vec_ty_def)

section \<open>Properties of packing and unpacking\<close>

text \<open>
  The loop of \<^verbatim>\<open>packLLElements\<close> on values of the right types, started at field
  \<open>k\<close>: it emits nothing, creates one insertion per value and overwrites the fields
  \<open>k, \<dots>, k + length vs - 1\<close>.
\<close>

lemma packLoop_well_typed:
  assumes "length fs = length tys"
      and "k + length vs \<le> length tys"
      and "\<forall>j < length vs. getType (vs ! j) = Some (tys ! (k + j))"
  shows "packLoop loc tys (enumerate k vs) (StructVal tys fs) st =
           (Some (StructVal tys (take k fs @ vs @ drop (k + length vs) fs)),
            st\<lparr>ops := ops st @ map InsertValueOp [k..<k + length vs]\<rparr>)"
  using assms
proof (induction vs arbitrary: k fs st)
  case Nil
  then show ?case by simp
next
  case (Cons v vs)
  have ty: "getType v = Some (tys ! k)"
    using Cons.prems(3) by (metis add.right_neutral length_greater_0_conv list.distinct(1) nth_Cons_0)
  then have nn: "v \<noteq> NullValue" by auto
  have k: "k < length tys" using Cons.prems(2) by simp
  have rest: "\<forall>j < length vs. getType (vs ! j) = Some (tys ! (Suc k + j))"
  proof (intro allI impI)
    fix j assume "j < length vs"
    then have "Suc j < length (v # vs)" by simp
    from Cons.prems(3)[rule_format, OF this] show "getType (vs ! j) = Some (tys ! (Suc k + j))"
      by simp
  qed
  have len: "length (fs[k := v]) = length tys" using Cons.prems(1) by simp
  have bound: "Suc k + length vs \<le> length tys" using Cons.prems(2) by simp
  have step: "packLoop loc tys (enumerate k (v # vs)) (StructVal tys fs) st =
      packLoop loc tys (enumerate (Suc k) vs) (StructVal tys (fs[k := v]))
        (st\<lparr>ops := ops st @ [InsertValueOp k]\<rparr>)"
    using ty nn k by (simp add: insert_val_def)
  have kf: "k < length fs" using k Cons.prems(1) by simp
  have t1: "take (Suc k) (fs[k := v]) = take k fs @ [v]"
    using kf by (simp add: take_Suc_conv_app_nth)
  have t2: "drop (Suc k + length vs) (fs[k := v]) = drop (k + length (v # vs)) fs"
    by simp
  have t3: "[k..<k + length (v # vs)] = k # [Suc k..<Suc k + length vs]"
    by (subst upt_rec) simp
  show ?case
    unfolding step Cons.IH[OF len bound rest] t1 t2 t3 by simp
qed

lemma unpackLoop_struct:
  assumes "\<forall>i \<in> set idxs. i < length fs"
  shows "unpackLoop tys (StructVal tys fs) idxs st =
           (map (\<lambda>i. fs ! i) idxs, st\<lparr>ops := ops st @ map ExtractValueOp idxs\<rparr>)"
  using assms
  by (induction idxs arbitrary: st) (simp_all add: extract_val_def)

lemma unpack_struct:
  assumes "length fs = length tys"
  shows "unpackLLElements loc (StructVal tys fs) st =
           (Some fs, st\<lparr>ops := ops st @ map ExtractValueOp [0..<length tys]\<rparr>)"
proof -
  have "unpackLoop tys (StructVal tys fs) [0..<length tys] st =
      (map (\<lambda>i. fs ! i) [0..<length tys], st\<lparr>ops := ops st @ map ExtractValueOp [0..<length tys]\<rparr>)"
    by (rule unpackLoop_struct) (simp add: assms)
  moreover have "map (\<lambda>i. fs ! i) [0..<length tys] = fs"
    using assms map_nth[of fs] by simp
  ultimately show ?thesis by (simp add: unpackLLElements_def)
qed

lemma pack_well_typed:
  assumes conv: "convertType cv t = Some (LLVMStructType tys)"
      and wt: "list_all2 (\<lambda>v fieldTy. getType v = Some fieldTy) vs tys"
  shows "packLLElements cv loc vs t st =
           (Some (StructVal tys vs),
            st\<lparr>ops := ops st @ UndefOp (LLVMStructType tys) # map InsertValueOp [0..<length tys]\<rparr>)"
proof -
  have len: "length vs = length tys" using wt by (rule list_all2_lengthD)
  have nth: "\<forall>j < length vs. getType (vs ! j) = Some (tys ! (0 + j))"
    using wt by (simp add: list_all2_conv_all_nth)
  have "packLoop loc tys (enumerate 0 vs) (StructVal tys (map UndefVal tys))
          (st\<lparr>ops := ops st @ [UndefOp (LLVMStructType tys)]\<rparr>) =
        (Some (StructVal tys (take 0 (map UndefVal tys) @ vs @ drop (0 + length vs) (map UndefVal tys))),
         (st\<lparr>ops := ops st @ [UndefOp (LLVMStructType tys)]\<rparr>)
           \<lparr>ops := ops (st\<lparr>ops := ops st @ [UndefOp (LLVMStructType tys)]\<rparr>) @ map InsertValueOp [0..<0 + length vs]\<rparr>)"
    by (rule packLoop_well_typed) (use len nth in simp_all)
  then show ?thesis
    using conv len by (simp add: packLLElements_def createUndefOp_def)
qed

text \<open>
  C1. Let \<open>t\<close> convert to an aggregate with body \<open>tys\<close>, and let the values \<open>vs\<close> be
  non-null with the types \<open>tys\<close>, one for each field. Then packing \<open>vs\<close> emits no
  diagnostic and gives the aggregate holding \<open>vs\<close>, and unpacking that gives \<open>vs\<close> back;
  and unpacking the well-typed aggregate with the fields \<open>vs\<close> gives \<open>vs\<close>, and packing
  those for \<open>t\<close> gives the aggregate back. Values are compared by what they hold.
\<close>

theorem pack_unpack_roundtrip:
  assumes conv: "convertType cv t = Some (LLVMStructType tys)"
      and wt: "list_all2 (\<lambda>v fieldTy. getType v = Some fieldTy) vs tys"
  shows "(\<exists>st1. packLLElements cv loc vs t st = (Some (StructVal tys vs), st1)
            \<and> diags st1 = diags st
            \<and> fst (unpackLLElements loc (StructVal tys vs) st1) = Some vs)
       \<and> (\<exists>st1. unpackLLElements loc (StructVal tys vs) st = (Some vs, st1)
            \<and> diags st1 = diags st
            \<and> fst (packLLElements cv loc vs t st1) = Some (StructVal tys vs))"
proof -
  have len: "length vs = length tys" using wt by (rule list_all2_lengthD)
  show ?thesis
    by (simp add: pack_well_typed[OF conv wt] unpack_struct[OF len])
qed

theorem pack_unpack_roundtrip_witness:
  "convertType referenceConverter
     (RankedTensorType [128] (FloatType Float16) (Some (BlockedEncodingAttr [4] [32] [1] [0]))) =
     Some (LLVMStructType [FloatType Float16, FloatType Float16, FloatType Float16, FloatType Float16])
   \<and> list_all2 (\<lambda>v fieldTy. getType v = Some fieldTy)
        [OpaqueVal (FloatType Float16) 0, OpaqueVal (FloatType Float16) 1,
         OpaqueVal (FloatType Float16) 2, UndefVal (FloatType Float16)]
        [FloatType Float16, FloatType Float16, FloatType Float16, FloatType Float16]
   \<and> fst (packLLElements referenceConverter 7
        [OpaqueVal (FloatType Float16) 0, OpaqueVal (FloatType Float16) 1,
         OpaqueVal (FloatType Float16) 2, UndefVal (FloatType Float16)]
        (RankedTensorType [128] (FloatType Float16) (Some (BlockedEncodingAttr [4] [32] [1] [0])))
        \<lparr>diags = [], ops = []\<rparr>) =
      Some (StructVal [FloatType Float16, FloatType Float16, FloatType Float16, FloatType Float16]
        [OpaqueVal (FloatType Float16) 0, OpaqueVal (FloatType Float16) 1,
         OpaqueVal (FloatType Float16) 2, UndefVal (FloatType Float16)])
   \<and> fst (unpackLLElements 7
        (StructVal [FloatType Float16, FloatType Float16, FloatType Float16, FloatType Float16]
          [OpaqueVal (FloatType Float16) 0, OpaqueVal (FloatType Float16) 1,
           OpaqueVal (FloatType Float16) 2, UndefVal (FloatType Float16)])
        \<lparr>diags = [], ops = []\<rparr>) =
      Some [OpaqueVal (FloatType Float16) 0, OpaqueVal (FloatType Float16) 1,
            OpaqueVal (FloatType Float16) 2, UndefVal (FloatType Float16)]"
proof -
  have h1: "convertType referenceConverter
     (RankedTensorType [128] (FloatType Float16) (Some (BlockedEncodingAttr [4] [32] [1] [0]))) =
     Some (LLVMStructType [FloatType Float16, FloatType Float16, FloatType Float16, FloatType Float16])"
    by code_simp
  have h2: "list_all2 (\<lambda>v fieldTy. getType v = Some fieldTy)
        [OpaqueVal (FloatType Float16) 0, OpaqueVal (FloatType Float16) 1,
         OpaqueVal (FloatType Float16) 2, UndefVal (FloatType Float16)]
        [FloatType Float16, FloatType Float16, FloatType Float16, FloatType Float16]"
    by simp
  from pack_unpack_roundtrip [OF h1 h2, of 7 "\<lparr>diags = [], ops = []\<rparr>"] h1 h2
  show ?thesis by auto
qed

text \<open>The loop only ever adds to the diagnostics and to the created operations.\<close>

lemma packLoop_extends:
  "\<exists>ds os. diags (snd (packLoop loc tys xs s st)) = diags st @ ds
         \<and> ops (snd (packLoop loc tys xs s st)) = ops st @ os"
proof (induction xs arbitrary: s st)
  case Nil
  show ?case by simp
next
  case (Cons x xs)
  obtain index v where x: "x = (index, v)" by (cases x)
  define st1 where "st1 = (if v = NullValue then emitError loc PackNullValue st else st)"
  have e1: "\<exists>ds. diags st1 = diags st @ ds \<and> ops st1 = ops st"
    by (simp add: st1_def emitError_def)
  show ?case
  proof (cases "getType v")
    case None
    then show ?thesis using e1 x by (simp add: st1_def[symmetric])
  next
    case (Some vt)
    show ?thesis
    proof (cases "length tys \<le> index")
      case True
      then show ?thesis using e1 x Some by (simp add: st1_def[symmetric])
    next
      case False
      define st2 where "st2 = (if vt \<noteq> tys ! index
                       then emitError loc (PackInvalidElementType (tys ! index) vt) st1
                       else st1)"
      obtain s' st3 where ins: "insert_val (LLVMStructType tys) s v index st2 = (s', st3)"
        by (cases "insert_val (LLVMStructType tys) s v index st2")
      have e2: "\<exists>ds. diags st2 = diags st1 @ ds \<and> ops st2 = ops st1"
        by (simp add: st2_def emitError_def)
      have e3: "diags st3 = diags st2 \<and> ops st3 = ops st2 @ [InsertValueOp index]"
        using ins by (auto simp: insert_val_def)
      have step: "packLoop loc tys (x # xs) s st = packLoop loc tys xs s' st3"
        using x Some False ins by (simp add: st1_def[symmetric] st2_def[symmetric])
      from Cons.IH[of s' st3] obtain ds os where
        "diags (snd (packLoop loc tys xs s' st3)) = diags st3 @ ds"
        "ops (snd (packLoop loc tys xs s' st3)) = ops st3 @ os" by blast
      then show ?thesis unfolding step using e1 e2 e3 by auto
    qed
  qed
qed

text \<open>
  The loop on non-null values that fit into the fields from \<open>k\<close> on: every value is
  inserted, whether or not it has the type of its field, and each value of another type
  adds its diagnostic.
\<close>

lemma getType_non_null: "v \<noteq> NullValue \<Longrightarrow> \<exists>vt. getType v = Some vt"
  by (cases v) simp_all

lemma packLoop_non_null:
  assumes "length fs = length tys"
      and "k + length vs \<le> length tys"
      and "list_all (\<lambda>v. v \<noteq> NullValue) vs"
  shows "packLoop loc tys (enumerate k vs) (StructVal tys fs) st =
           (Some (StructVal tys (take k fs @ vs @ drop (k + length vs) fs)),
            st\<lparr>diags := diags st @ typeMismatchDiagnostics loc tys (enumerate k vs),
               ops := ops st @ map InsertValueOp [k..<k + length vs]\<rparr>)"
  using assms
proof (induction vs arbitrary: k fs st)
  case Nil
  then show ?case by (simp add: typeMismatchDiagnostics_def)
next
  case (Cons v vs)
  have nn: "v \<noteq> NullValue" and rest: "list_all (\<lambda>v. v \<noteq> NullValue) vs"
    using Cons.prems(3) by simp_all
  from getType_non_null[OF nn] obtain vt where vt: "getType v = Some vt" by blast
  have k: "k < length tys" using Cons.prems(2) by simp
  have kf: "k < length fs" using k Cons.prems(1) by simp
  define st2 where "st2 = (if vt \<noteq> tys ! k
                       then emitError loc (PackInvalidElementType (tys ! k) vt) st
                       else st)"
  define st3 where "st3 = st2\<lparr>ops := ops st2 @ [InsertValueOp k]\<rparr>"
  have step: "packLoop loc tys (enumerate k (v # vs)) (StructVal tys fs) st =
      packLoop loc tys (enumerate (Suc k) vs) (StructVal tys (fs[k := v])) st3"
    using vt nn k by (simp add: insert_val_def st2_def st3_def Let_def)
  have len: "length (fs[k := v]) = length tys" using Cons.prems(1) by simp
  have bound: "Suc k + length vs \<le> length tys" using Cons.prems(2) by simp
  have t1: "take (Suc k) (fs[k := v]) = take k fs @ [v]"
    using kf by (simp add: take_Suc_conv_app_nth)
  have t2: "drop (Suc k + length vs) (fs[k := v]) = drop (k + length (v # vs)) fs"
    by simp
  have t3: "[k..<k + length (v # vs)] = k # [Suc k..<Suc k + length vs]"
    by (subst upt_rec) simp
  have d: "typeMismatchDiagnostics loc tys (enumerate k (v # vs)) =
      (if vt \<noteq> tys ! k then [(loc, PackInvalidElementType (tys ! k) vt)] else [])
      @ typeMismatchDiagnostics loc tys (enumerate (Suc k) vs)"
    using vt by (simp add: typeMismatchDiagnostics_def)
  have s3: "st3\<lparr>diags := diags st3 @ typeMismatchDiagnostics loc tys (enumerate (Suc k) vs),
               ops := ops st3 @ map InsertValueOp [Suc k..<Suc k + length vs]\<rparr> =
        st\<lparr>diags := diags st @ typeMismatchDiagnostics loc tys (enumerate k (v # vs)),
               ops := ops st @ map InsertValueOp [k..<k + length (v # vs)]\<rparr>"
    unfolding d t3 by (simp add: st3_def st2_def emitError_def)
  show ?case
    unfolding step Cons.IH[OF len bound rest] t1 t2 s3 by simp
qed

text \<open>
  C4, as the code has it. Let \<open>t\<close> convert to an aggregate with body \<open>tys\<close> and let the
  number of values differ from the number of fields. Then the first diagnostic that
  \<^verbatim>\<open>packLLElements\<close> emits is the size mismatch, naming the expected and the
  actual count, and the function does not return there: the first operation it creates
  is the undefined aggregate. Where the values are fewer than the fields and none is
  null, it inserts every value into its field, in order, with one type-mismatch
  diagnostic for each value that has not the type of its field, and returns the aggregate
  that holds the values in its first fields and leaves the other fields undefined.
\<close>

theorem pack_size_mismatch:
  assumes conv: "convertType cv t = Some (LLVMStructType tys)"
      and mismatch: "length vs \<noteq> length tys"
  shows "(\<exists>ds. diags (snd (packLLElements cv loc vs t st)) =
            diags st @ (loc, PackSizeMismatch (length tys) (length vs)) # ds)
       \<and> (\<exists>os. ops (snd (packLLElements cv loc vs t st)) =
            ops st @ UndefOp (LLVMStructType tys) # os)
       \<and> (length vs < length tys \<and> list_all (\<lambda>v. v \<noteq> NullValue) vs \<longrightarrow>
          packLLElements cv loc vs t st =
            (Some (StructVal tys (vs @ map UndefVal (drop (length vs) tys))),
             st\<lparr>diags := diags st @ (loc, PackSizeMismatch (length tys) (length vs))
                        # typeMismatchDiagnostics loc tys (enumerate 0 vs),
                ops := ops st @ UndefOp (LLVMStructType tys)
                        # map InsertValueOp [0..<length vs]\<rparr>))"
proof -
  define st1 where "st1 = emitError loc (PackSizeMismatch (length tys) (length vs)) st"
  define st2 where "st2 = st1\<lparr>ops := ops st1 @ [UndefOp (LLVMStructType tys)]\<rparr>"
  have unfold: "packLLElements cv loc vs t st =
      packLoop loc tys (enumerate 0 vs) (StructVal tys (map UndefVal tys)) st2"
    using conv mismatch by (simp add: packLLElements_def createUndefOp_def st1_def st2_def Let_def)
  have d2: "diags st2 = diags st @ [(loc, PackSizeMismatch (length tys) (length vs))]"
    by (simp add: st2_def st1_def emitError_def)
  have o2: "ops st2 = ops st @ [UndefOp (LLVMStructType tys)]"
    by (simp add: st2_def st1_def emitError_def)
  from packLoop_extends[of loc tys "enumerate 0 vs" "StructVal tys (map UndefVal tys)" st2]
  obtain ds os where
    ext: "diags (snd (packLLElements cv loc vs t st)) = diags st2 @ ds"
         "ops (snd (packLLElements cv loc vs t st)) = ops st2 @ os"
    unfolding unfold by blast
  have p1: "\<exists>ds. diags (snd (packLLElements cv loc vs t st)) =
            diags st @ (loc, PackSizeMismatch (length tys) (length vs)) # ds"
    using ext(1) d2 by simp
  have p2: "\<exists>os. ops (snd (packLLElements cv loc vs t st)) =
            ops st @ UndefOp (LLVMStructType tys) # os"
    using ext(2) o2 by simp
  have p3: "packLLElements cv loc vs t st =
            (Some (StructVal tys (vs @ map UndefVal (drop (length vs) tys))),
             st\<lparr>diags := diags st @ (loc, PackSizeMismatch (length tys) (length vs))
                        # typeMismatchDiagnostics loc tys (enumerate 0 vs),
                ops := ops st @ UndefOp (LLVMStructType tys)
                        # map InsertValueOp [0..<length vs]\<rparr>)"
    if short: "length vs < length tys"
      and nn: "list_all (\<lambda>v. v \<noteq> NullValue) vs"
  proof -
    have "packLoop loc tys (enumerate 0 vs) (StructVal tys (map UndefVal tys)) st2 =
        (Some (StructVal tys (take 0 (map UndefVal tys) @ vs @ drop (0 + length vs) (map UndefVal tys))),
         st2\<lparr>diags := diags st2 @ typeMismatchDiagnostics loc tys (enumerate 0 vs),
             ops := ops st2 @ map InsertValueOp [0..<0 + length vs]\<rparr>)"
      by (rule packLoop_non_null) (use short nn in simp_all)
    then show ?thesis
      unfolding unfold by (simp add: st2_def st1_def emitError_def drop_map)
  qed
  from p1 p2 p3 show ?thesis by blast
qed

theorem pack_size_mismatch_witness:
  "convertType referenceConverter
     (RankedTensorType [128] (FloatType Float16) (Some (BlockedEncodingAttr [4] [32] [1] [0]))) =
     Some (LLVMStructType [FloatType Float16, FloatType Float16, FloatType Float16, FloatType Float16])
   \<and> length [OpaqueVal (FloatType Float16) 0, OpaqueVal (FloatType Float32) 1] <
       length [FloatType Float16, FloatType Float16, FloatType Float16, FloatType Float16]
   \<and> list_all (\<lambda>v. v \<noteq> NullValue)
        [OpaqueVal (FloatType Float16) 0, OpaqueVal (FloatType Float32) 1]
   \<and> packLLElements referenceConverter 7
        [OpaqueVal (FloatType Float16) 0, OpaqueVal (FloatType Float32) 1]
        (RankedTensorType [128] (FloatType Float16) (Some (BlockedEncodingAttr [4] [32] [1] [0])))
        \<lparr>diags = [], ops = []\<rparr> =
      (Some (StructVal [FloatType Float16, FloatType Float16, FloatType Float16, FloatType Float16]
         [OpaqueVal (FloatType Float16) 0, OpaqueVal (FloatType Float32) 1,
          UndefVal (FloatType Float16), UndefVal (FloatType Float16)]),
       \<lparr>diags = [(7, PackSizeMismatch 4 2),
                 (7, PackInvalidElementType (FloatType Float16) (FloatType Float32))],
        ops = [UndefOp (LLVMStructType
                 [FloatType Float16, FloatType Float16, FloatType Float16, FloatType Float16]),
               InsertValueOp 0, InsertValueOp 1]\<rparr>)"
proof -
  have h1: "convertType referenceConverter
     (RankedTensorType [128] (FloatType Float16) (Some (BlockedEncodingAttr [4] [32] [1] [0]))) =
     Some (LLVMStructType [FloatType Float16, FloatType Float16, FloatType Float16, FloatType Float16])"
    by code_simp
  have h2: "length [OpaqueVal (FloatType Float16) 0, OpaqueVal (FloatType Float32) 1] \<noteq>
       length [FloatType Float16, FloatType Float16, FloatType Float16, FloatType Float16]"
    by simp
  have h3: "list_all (\<lambda>v. v \<noteq> NullValue)
        [OpaqueVal (FloatType Float16) 0, OpaqueVal (FloatType Float32) 1]"
    by simp
  have u: "[0..<2] = [0, Suc 0]" by (simp add: numeral_2_eq_2)
  have d: "typeMismatchDiagnostics 7
        [FloatType Float16, FloatType Float16, FloatType Float16, FloatType Float16]
        (enumerate 0 [OpaqueVal (FloatType Float16) 0, OpaqueVal (FloatType Float32) 1]) =
        [(7, PackInvalidElementType (FloatType Float16) (FloatType Float32))]"
    by (simp add: typeMismatchDiagnostics_def)
  from pack_size_mismatch [OF h1 h2, of 7 "\<lparr>diags = [], ops = []\<rparr>"] h1 h3 u d
  show ?thesis by simp
qed

text \<open>
  Against C4 as stated: one value packed for a type of four fields. The diagnostic is
  emitted, and an aggregate is constructed and returned all the same.
\<close>

theorem pack_short_sequence_builds_struct:
  "packLLElements referenceConverter 7 [OpaqueVal (FloatType Float16) 0]
     (RankedTensorType [128] (FloatType Float16) (Some (BlockedEncodingAttr [4] [32] [1] [0])))
     \<lparr>diags = [], ops = []\<rparr> =
   (Some (StructVal [FloatType Float16, FloatType Float16, FloatType Float16, FloatType Float16]
        [OpaqueVal (FloatType Float16) 0, UndefVal (FloatType Float16),
         UndefVal (FloatType Float16), UndefVal (FloatType Float16)]),
    \<lparr>diags = [(7, PackSizeMismatch 4 1)],
     ops = [UndefOp (LLVMStructType
              [FloatType Float16, FloatType Float16, FloatType Float16, FloatType Float16]),
            InsertValueOp 0]\<rparr>)"
  by code_simp

section \<open>Properties of the layout-assigning pass\<close>








text \<open>
  C6. The legality callback of the dot operation answers \<open>legal\<close> exactly when the types
  of both operands carry a DotOperand encoding; with a Blocked encoding, or none, on one
  operand the operation is illegal.
\<close>

theorem dot_legal_iff_both_dot_operand:
  "DotOp_isLegal (RankedTensorType aShape aElt aEncoding) (RankedTensorType bShape bElt bEncoding) =
     Some ((\<exists>opIdx parent. aEncoding = Some (DotOperandEncodingAttr opIdx parent))
         \<and> (\<exists>opIdx parent. bEncoding = Some (DotOperandEncodingAttr opIdx parent)))
   \<and> DotOp_isLegal
        (RankedTensorType aShape aElt (Some (DotOperandEncodingAttr 0 pa)))
        (RankedTensorType bShape bElt (Some (DotOperandEncodingAttr 1 pb))) = Some True
   \<and> DotOp_isLegal
        (RankedTensorType aShape aElt (Some (BlockedEncodingAttr spt tpw wpc ord)))
        (RankedTensorType bShape bElt (Some (DotOperandEncodingAttr 1 pb))) = Some False
   \<and> DotOp_isLegal
        (RankedTensorType aShape aElt (Some (DotOperandEncodingAttr 0 pa)))
        (RankedTensorType bShape bElt None) = Some False"
proof -
  have a: "(case e of None \<Rightarrow> False | Some a \<Rightarrow> isaDotOperandEncodingAttr a) =
      (\<exists>opIdx parent. e = Some (DotOperandEncodingAttr opIdx parent))" for e
  proof (cases e)
    case None
    then show ?thesis by simp
  next
    case (Some x)
    then show ?thesis by (cases x) simp_all
  qed
  show ?thesis
    by (simp add: DotOp_isLegal_def a)
qed

section \<open>Failures of layout inference\<close>

text \<open>
  C9. With a layout interface whose inference fails, the result-type inference of the
  transpose and of the reduce operation ends in \<^verbatim>\<open>llvm::report_fatal_error\<close>,
  while that of the expand-dims operation returns failure with one diagnostic at the
  operation's location.
\<close>

theorem layout_inference_failure_outcomes:
  "TransOp_inferReturnTypes noInference (Some 3)
     [RankedTensorType [16, 32] (FloatType Float16) (Some (SharedEncodingAttr 8 2 4 [1, 0]))] =
     FatalError ''failed to infer layout for ReduceOp''
   \<and> ReduceOp_inferReturnTypes noInference (Some 3)
     [RankedTensorType [16, 32] (FloatType Float16) (Some (SharedEncodingAttr 8 2 4 [1, 0]))]
     (OtherRedOp 0) 1 =
     FatalError ''failed to infer layout for ReduceOp''
   \<and> ExpandDimsOp_inferReturnTypes noInference (Some 3)
     [RankedTensorType [16, 32] (FloatType Float16) (Some (SharedEncodingAttr 8 2 4 [1, 0]))] 1 =
     InferFailure [(3, ''failed to infer layout for ExpandDimsOp'')]"
  by (simp add: TransOp_inferReturnTypes_def ReduceOp_inferReturnTypes_def
      ExpandDimsOp_inferReturnTypes_def noInference_def emitOptionalError_def withIndex_def)

end
